theory Spec2Isabelle
  imports Main
begin

section \<open>Go values shared by the models\<close>

text \<open>
  A Go call either returns or panics. A byte slice and a Go string are both
  modelled as a list of characters.
\<close>

type_synonym bytes = string

datatype 'a outcome = Panicked string | Returned 'a

text \<open>
  Decimal rendering of an integer, as the verb \<^verbatim>\<open>%d\<close> of \<^verbatim>\<open>fmt.Sprintf\<close>
  prints it.
\<close>

definition digit :: "nat \<Rightarrow> char" where
  "digit d = ''0123456789'' ! d"

fun decimal :: "nat \<Rightarrow> string" where
  "decimal n =
     (if n < 10 then [digit n]
      else decimal (n div 10) @ [digit (n mod 10)])"

declare decimal.simps [simp del]


section \<open>The wrapper server: porch/func/wrapper-server/main.go\<close>

subsection \<open>Command line and listener\<close>

text \<open>
  \<^verbatim>\<open>type options struct { port int; entrypoint []string }\<close>
\<close>

record options =
  port :: int
  entrypoint :: "string list"

text \<open>
  \<^verbatim>\<open>op := &options{}\<close>: every field at its zero value (a nil slice is the
  empty list).
\<close>

definition new_options :: options where
  "new_options = \<lparr>port = 0, entrypoint = []\<rparr>"

text \<open>
  \<^verbatim>\<open>cmd.Flags().IntVar(&op.port, "port", 9446, "The server port")\<close>.
  Registering the flag stores the default in \<^verbatim>\<open>op.port\<close>; parsing
  overwrites it when \<^verbatim>\<open>--port\<close> is on the command line. The flag
  library is not part of the repository: what it parsed is the argument
  \<open>port_flag\<close> (\<open>None\<close> when the flag is absent).
\<close>

definition IntVar_port :: "options \<Rightarrow> int option \<Rightarrow> options" where
  "IntVar_port op port_flag =
     (case port_flag of
        None \<Rightarrow> op\<lparr>port := 9446\<rparr>
      | Some p \<Rightarrow> op\<lparr>port := p\<rparr>)"

text \<open>
  The body of \<^verbatim>\<open>RunE\<close> before \<^verbatim>\<open>op.run()\<close>:
  \<^verbatim>\<open>
  argsLenAtDash := cmd.ArgsLenAtDash()
  if argsLenAtDash > -1 {
      op.entrypoint = args[argsLenAtDash:]
  }
  \<close>
  \<open>args\<close> are the positional arguments and \<open>argsLenAtDash\<close> is the number of
  them before the \<^verbatim>\<open>--\<close> separator (\<open>-1\<close> without separator), both as
  the command-line library hands them over. Slicing beyond the length panics.
\<close>

definition RunE :: "options \<Rightarrow> string list \<Rightarrow> int \<Rightarrow> options outcome" where
  "RunE op args argsLenAtDash =
     (if argsLenAtDash > -1 then
        (if nat argsLenAtDash > length args
         then Panicked ''slice bounds out of range''
         else Returned (op\<lparr>entrypoint := drop (nat argsLenAtDash) args\<rparr>))
      else Returned op)"

text \<open>The options with which \<^verbatim>\<open>main\<close> calls \<^verbatim>\<open>op.run()\<close>.\<close>

definition main_options :: "int option \<Rightarrow> string list \<Rightarrow> int \<Rightarrow> options outcome" where
  "main_options port_flag args argsLenAtDash =
     RunE (IntVar_port new_options port_flag) args argsLenAtDash"

text \<open>
  \<^verbatim>\<open>options.run\<close>:
  \<^verbatim>\<open>
  address := fmt.Sprintf(":%d", o.port)
  lis, err := net.Listen("tcp", address)
  if err != nil { return fmt.Errorf("failed to listen: %w", err) }
  evaluator := &singleFunctionEvaluator{entrypoint: o.entrypoint}
  ...
  \<close>
  \<open>Listen\<close> is the operating system's answer to \<^verbatim>\<open>net.Listen\<close>: \<open>None\<close>
  when the socket is bound, the error otherwise. The result of the model is the
  server that is then served: the address it listens on and the evaluator
  registered with it.
\<close>

record server =
  network :: string
  address :: string
  evaluator :: "string list"



subsection \<open>Evaluating a function\<close>

text \<open>
  The request and response messages are declared in the generated package
  \<^verbatim>\<open>porch/func/evaluator\<close>. The request is modelled with the two fields
  the server reads.
\<close>

record EvaluateFunctionRequest =
  Request_ResourceList :: bytes
  Request_Image :: string

text \<open>A structured diagnostic of the result list.\<close>

datatype diagnostic = Diagnostic string

text \<open>
  Modelled from the spec: the declaration of the response message
  \<^verbatim>\<open>pb.EvaluateFunctionResponse\<close> is not among the sources. The wire
  interface gives the response three components: the resource list, the log
  and the result list. A field that a Go struct literal does not name holds
  its zero value, here the empty list.
\<close>

record EvaluateFunctionResponse =
  Response_ResourceList :: bytes
  Response_Log :: bytes
  Response_Results :: "diagnostic list"

text \<open>The gRPC status codes (\<^verbatim>\<open>google.golang.org/grpc/codes\<close>).\<close>

datatype codes =
  OK | Canceled | Unknown | InvalidArgument | DeadlineExceeded | NotFound
  | AlreadyExists | PermissionDenied | ResourceExhausted | FailedPrecondition
  | Aborted | OutOfRange | Unimplemented | Internal | Unavailable | DataLoss
  | Unauthenticated

text \<open>
  The error of \<^verbatim>\<open>cmd.Run()\<close>: an \<^verbatim>\<open>*exec.ExitError\<close> when the
  process ran and did not exit successfully (with its exit code), any other
  error when it could not be started, its streams could not be copied or the
  context ended.
\<close>

datatype run_error = ExitError int | OtherError string

text \<open>
  A Go \<^verbatim>\<open>error\<close> value is \<open>None\<close> for \<^verbatim>\<open>nil\<close>.
  \<^verbatim>\<open>errors.As(err, &exitErr)\<close> with \<^verbatim>\<open>exitErr *exec.ExitError\<close>
  is false for \<^verbatim>\<open>nil\<close>.
\<close>

fun errors_As_ExitError :: "run_error option \<Rightarrow> bool" where
  "errors_As_ExitError None = False"
| "errors_As_ExitError (Some (ExitError c)) = True"
| "errors_As_ExitError (Some (OtherError m)) = False"

text \<open>
  \<^verbatim>\<open>status.Errorf(c, format, a...)\<close>: the code, the format and its
  operands, left unformatted.
\<close>

datatype operand = String_operand string | Error_operand "run_error option"

record rpc_status =
  Code :: codes
  Format :: string
  Operands :: "operand list"

definition Errorf :: "codes \<Rightarrow> string \<Rightarrow> operand list \<Rightarrow> rpc_status" where
  "Errorf c f a = \<lparr>Code = c, Format = f, Operands = a\<rparr>"

text \<open>
  The command as \<^verbatim>\<open>exec.CommandContext(ctx, name, arg...)\<close> builds it
  (\<^verbatim>\<open>Args\<close> holds the name followed by the arguments), with the
  standard input the server attaches. Standard output and standard error are
  buffers that the run fills.
\<close>

record Cmd =
  Path :: string
  Args :: "string list"
  Stdin :: bytes

definition CommandContext :: "string \<Rightarrow> string list \<Rightarrow> Cmd" where
  "CommandContext name arg = \<lparr>Path = name, Args = name # arg, Stdin = []\<rparr>"

text \<open>
  What \<^verbatim>\<open>cmd.Run()\<close> leaves behind: the two buffers and the error.
  The operating system is the function \<open>Run\<close> from commands to such results.
\<close>

record run_result =
  stdout :: bytes
  stderr :: bytes
  err :: "run_error option"

text \<open>
  \<^verbatim>\<open>
  func (e *singleFunctionEvaluator) EvaluateFunction(ctx, req) (*pb.EvaluateFunctionResponse, error) {
      var stdout, stderr bytes.Buffer
      cmd := exec.CommandContext(ctx, e.entrypoint[0], e.entrypoint[1:]...)
      cmd.Stdin = bytes.NewReader(req.ResourceList)
      cmd.Stdout = &stdout
      cmd.Stderr = &stderr
      err := cmd.Run()
      var exitErr *exec.ExitError
      if err != nil && !errors.As(err, &exitErr) {
          return nil, status.Errorf(codes.Internal, "Failed to execute function %q: %s (%s)", req.Image, err, stderr.String())
      }
      outbytes := stdout.Bytes()
      return &pb.EvaluateFunctionResponse{ResourceList: outbytes, Log: stderr.Bytes()}, nil
  }
  \<close>
  The model returns the commands it ran, in order, and the outcome of the
  call: a panic, an RPC error (\<open>Inl\<close>) or a response (\<open>Inr\<close>). Logging is
  left out.
\<close>

definition EvaluateFunction ::
  "string list \<Rightarrow> (Cmd \<Rightarrow> run_result) \<Rightarrow> EvaluateFunctionRequest
     \<Rightarrow> Cmd list \<times> (rpc_status + EvaluateFunctionResponse) outcome" where
  "EvaluateFunction e Run req =
     (case e of
        [] \<Rightarrow> ([], Panicked ''index out of range [0] with length 0'')
      | name # arg \<Rightarrow>
          (let cmd = (CommandContext name arg)\<lparr>Stdin := Request_ResourceList req\<rparr>;
               r = Run cmd
           in if err r \<noteq> None \<and> \<not> errors_As_ExitError (err r) then
                ([cmd], Returned (Inl (Errorf Internal
                   ''Failed to execute function %q: %s (%s)''
                   [String_operand (Request_Image req), Error_operand (err r),
                    String_operand (stderr r)])))
              else
                (let outbytes = stdout r in
                 ([cmd], Returned (Inr \<lparr>Response_ResourceList = outbytes,
                                        Response_Log = stderr r,
                                        Response_Results = []\<rparr>)))))"

subsection \<open>Health checking\<close>

text \<open>The serving status of \<^verbatim>\<open>grpc_health_v1\<close>.\<close>

datatype ServingStatus = UNKNOWN | SERVING | NOT_SERVING | SERVICE_UNKNOWN

record HealthCheckResponse =
  Status :: ServingStatus

record HealthCheckRequest =
  Service :: string

text \<open>
  \<^verbatim>\<open>
  func (s *HealthChecker) Check(ctx, req) (*grpc_health_v1.HealthCheckResponse, error) {
      return &grpc_health_v1.HealthCheckResponse{Status: grpc_health_v1.HealthCheckResponse_SERVING}, nil
  }
  \<close>
\<close>

definition Check :: "HealthCheckRequest \<Rightarrow> string + HealthCheckResponse" where
  "Check req = Inr \<lparr>Status = SERVING\<rparr>"

text \<open>
  The server side of the \<^verbatim>\<open>Watch\<close> stream
  (\<^verbatim>\<open>grpc_health_v1.Health_WatchServer\<close>): the messages sent on it
  so far, and the error with which the transport answers a
  \<^verbatim>\<open>Send\<close> (\<open>None\<close> while the stream is intact). A message that the
  transport refuses is not sent.
\<close>

record Health_WatchServer =
  sent :: "HealthCheckResponse list"
  transport_error :: "string option"

definition Send :: "Health_WatchServer \<Rightarrow> HealthCheckResponse \<Rightarrow> string option \<times> Health_WatchServer" where
  "Send srv m =
     (case transport_error srv of
        None \<Rightarrow> (None, srv\<lparr>sent := sent srv @ [m]\<rparr>)
      | Some e \<Rightarrow> (Some e, srv))"

text \<open>
  \<^verbatim>\<open>
  func (s *HealthChecker) Watch(req, server) error {
      return server.Send(&grpc_health_v1.HealthCheckResponse{Status: grpc_health_v1.HealthCheckResponse_SERVING})
  }
  \<close>
  The handler returns the error of the single \<^verbatim>\<open>Send\<close>, with the
  stream as the call leaves it.
\<close>

definition Watch :: "HealthCheckRequest \<Rightarrow> Health_WatchServer \<Rightarrow> string option \<times> Health_WatchServer" where
  "Watch req srv = Send srv \<lparr>Status = SERVING\<rparr>"

text \<open>
  What the client of a server-streaming call observes on a fresh stream whose
  transport is in the given state: the messages sent, then the end of the
  stream with the handler's error, since the stream ends when the handler
  returns.
\<close>

datatype stream_event = Message HealthCheckResponse | End_of_stream "string option"

definition Watch_reply :: "HealthCheckRequest \<Rightarrow> string option \<Rightarrow> stream_event list" where
  "Watch_reply req transport =
     (let (e, srv) = Watch req \<lparr>sent = [], transport_error = transport\<rparr>
      in map Message (sent srv) @ [End_of_stream e])"

section \<open>Test credentials: porch/apiserver/pkg/e2e/suite.go\<close>

text \<open>
  \<^verbatim>\<open>
  type Password string
  func (p Password) String() string { return "*************" }
  \<close>
\<close>

type_synonym Password = string

definition Password_String :: "Password \<Rightarrow> string" where
  "Password_String p = ''*************''"

section \<open>The update strategy: porch/apiserver/pkg/registry/porch/rest.go\<close>

text \<open>
  An entry of \<^verbatim>\<open>field.ErrorList\<close>; a \<^verbatim>\<open>nil\<close> list is the empty
  list.
\<close>

record field_Error =
  Type :: string
  Field :: string
  Detail :: string

type_synonym ErrorList = "field_Error list"

text \<open>
  \<^verbatim>\<open>
  type NoopUpdateStrategy struct{}
  func (s NoopUpdateStrategy) PrepareForUpdate(ctx context.Context, obj, old runtime.Object) {}
  func (s NoopUpdateStrategy) ValidateUpdate(ctx context.Context, obj, old runtime.Object) field.ErrorList {
      return nil
  }
  func (s NoopUpdateStrategy) Canonicalize(obj runtime.Object) {}
  \<close>
  A \<^verbatim>\<open>runtime.Object\<close> is a reference that a strategy may write
  through, so each method takes the objects and returns them as it leaves
  them.
\<close>

definition PrepareForUpdate :: "'ctx \<Rightarrow> 'obj \<Rightarrow> 'obj \<Rightarrow> 'obj \<times> 'obj" where
  "PrepareForUpdate ctx obj old = (obj, old)"

definition ValidateUpdate :: "'ctx \<Rightarrow> 'obj \<Rightarrow> 'obj \<Rightarrow> ErrorList \<times> 'obj \<times> 'obj" where
  "ValidateUpdate ctx obj old = ([], obj, old)"

definition Canonicalize :: "'obj \<Rightarrow> 'obj" where
  "Canonicalize obj = obj"

section \<open>Example inputs\<close>

text \<open>
  Concrete processes and a concrete request, on which the theorems below are
  evaluated: a function that rejects its input (exit status 1, a diagnostic on
  standard error) and one that copies its input to its output.
\<close>

definition failing_function :: "Cmd \<Rightarrow> run_result" where
  "failing_function c = \<lparr>stdout = ''items: []'', stderr = ''error: bad input'', err = Some (ExitError 1)\<rparr>"

definition some_request :: EvaluateFunctionRequest where
  "some_request = \<lparr>Request_ResourceList = ''kind: ResourceList'', Request_Image = ''gcr.io/kpt-fn/set-namespace:v0.2''\<rparr>"

definition succeeding_function :: "Cmd \<Rightarrow> run_result" where
  "succeeding_function c = \<lparr>stdout = Stdin c, stderr = [], err = None\<rparr>"

section \<open>The expected output of the clone test\<close>

text \<open>
  The file \<^verbatim>\<open>src/unnamed/part_000\<close> is the configuration of a command-line test: a list of commands,
  each with its arguments and, for two of them, the expected standard output,
  which is YAML. The YAML is embedded parsed.
\<close>

datatype yaml = Scalar string | Mapping "(string \<times> yaml) list" | Sequence "yaml list"

record test_command =
  command_args :: "string list"
  command_stdout :: "yaml option"
  command_yaml :: bool

definition register_git :: test_command where
  "register_git =
     \<lparr>command_args = [''alpha'', ''repo'', ''register'', ''--namespace=rpkg-clone'', ''--name=git'',
        ''http://git-server.test-git-namespace.svc.cluster.local:8080''],
      command_stdout = None, command_yaml = False\<rparr>"

definition clone_basens :: test_command where
  "clone_basens =
     \<lparr>command_args = [''alpha'', ''rpkg'', ''clone'', ''--namespace=rpkg-clone'',
        ''https://github.com/platkrm/test-blueprints.git'', ''--directory=basens'',
        ''--ref=basens/v1'', ''git:basens-clone:v0''],
      command_stdout = None, command_yaml = False\<rparr>"

definition register_blueprints :: test_command where
  "register_blueprints =
     \<lparr>command_args = [''alpha'', ''repo'', ''register'',
        ''https://github.com/platkrm/test-blueprints.git'', ''--namespace=rpkg-clone''],
      command_stdout = None, command_yaml = False\<rparr>"

definition clone_empty :: test_command where
  "clone_empty =
     \<lparr>command_args = [''alpha'', ''rpkg'', ''clone'', ''--namespace=rpkg-clone'',
        ''test-blueprints:empty:v1'', ''git:empty-clone:v0''],
      command_stdout = None, command_yaml = False\<rparr>"

definition basens_kptfile :: yaml where
  "basens_kptfile =
     Mapping
      [(''apiVersion'', Scalar ''kpt.dev/v1''),
       (''info'', Mapping [(''description'', Scalar ''sample description'')]),
       (''kind'', Scalar ''Kptfile''),
       (''metadata'', Mapping
          [(''annotations'', Mapping
              [(''config.kubernetes.io/index'', Scalar ''0''),
               (''config.kubernetes.io/path'', Scalar ''Kptfile''),
               (''internal.config.kubernetes.io/index'', Scalar ''0''),
               (''internal.config.kubernetes.io/path'', Scalar ''Kptfile'')]),
           (''name'', Scalar ''basens-clone'')]),
       (''upstream'', Mapping
          [(''git'', Mapping
              [(''directory'', Scalar ''basens''),
               (''ref'', Scalar ''basens/v1''),
               (''repo'', Scalar ''https://github.com/platkrm/test-blueprints.git'')]),
           (''type'', Scalar ''git'')]),
       (''upstreamLock'', Mapping
          [(''git'', Mapping
              [(''commit'', Scalar ''67f29546028f0a48c6bbb08614934d0e070cdd3a''),
               (''directory'', Scalar ''basens''),
               (''ref'', Scalar ''basens/v1''),
               (''repo'', Scalar ''https://github.com/platkrm/test-blueprints.git'')]),
           (''type'', Scalar ''git'')])]"

definition basens_namespace :: yaml where
  "basens_namespace =
     Mapping
      [(''apiVersion'', Scalar ''v1''),
       (''kind'', Scalar ''Namespace''),
       (''metadata'', Mapping
          [(''annotations'', Mapping
              [(''config.kubernetes.io/index'', Scalar ''0''),
               (''config.kubernetes.io/path'', Scalar ''namespace.yaml''),
               (''internal.config.kubernetes.io/index'', Scalar ''0''),
               (''internal.config.kubernetes.io/path'', Scalar ''namespace.yaml'')]),
           (''name'', Scalar ''example'')])]"

definition pull_basens :: test_command where
  "pull_basens =
     \<lparr>command_args = [''alpha'', ''rpkg'', ''pull'', ''--namespace=rpkg-clone'',
        ''git:basens-clone:v0''],
      command_stdout = Some (Mapping
        [(''apiVersion'', Scalar ''config.kubernetes.io/v1''),
         (''items'', Sequence [basens_kptfile, basens_namespace]),
         (''kind'', Scalar ''ResourceList'')]),
      command_yaml = True\<rparr>"

definition empty_kptfile :: yaml where
  "empty_kptfile =
     Mapping
      [(''apiVersion'', Scalar ''kpt.dev/v1''),
       (''info'', Mapping [(''description'', Scalar ''Empty Blueprint'')]),
       (''kind'', Scalar ''Kptfile''),
       (''metadata'', Mapping
          [(''annotations'', Mapping
              [(''config.kubernetes.io/index'', Scalar ''0''),
               (''internal.config.kubernetes.io/index'', Scalar ''0''),
               (''internal.config.kubernetes.io/path'', Scalar ''Kptfile'')]),
           (''name'', Scalar ''empty-clone'')]),
       (''upstream'', Mapping
          [(''git'', Mapping
              [(''directory'', Scalar ''empty''),
               (''ref'', Scalar ''v1''),
               (''repo'', Scalar ''https://github.com/platkrm/test-blueprints.git'')]),
           (''type'', Scalar ''git'')]),
       (''upstreamLock'', Mapping
          [(''git'', Mapping
              [(''commit'', Scalar ''3de8635354eda8e7de756494a4e0eb5c12af01ab''),
               (''directory'', Scalar ''empty''),
               (''ref'', Scalar ''v1''),
               (''repo'', Scalar ''https://github.com/platkrm/test-blueprints.git'')]),
           (''type'', Scalar ''git'')])]"

definition pull_empty :: test_command where
  "pull_empty =
     \<lparr>command_args = [''alpha'', ''rpkg'', ''pull'', ''--namespace=rpkg-clone'',
        ''git:empty-clone:v0''],
      command_stdout = Some (Mapping
        [(''apiVersion'', Scalar ''config.kubernetes.io/v1''),
         (''items'', Sequence [empty_kptfile]),
         (''kind'', Scalar ''ResourceList'')]),
      command_yaml = True\<rparr>"

definition commands :: "test_command list" where
  "commands =
     [register_git, clone_basens, register_blueprints, clone_empty, pull_basens, pull_empty]"

text \<open>Reading the YAML: a key of a mapping, a path of keys, the items of a sequence.\<close>

fun yaml_get :: "yaml \<Rightarrow> string \<Rightarrow> yaml option" where
  "yaml_get (Mapping kvs) k = map_of kvs k"
| "yaml_get (Scalar v) k = None"
| "yaml_get (Sequence ys) k = None"

fun yaml_path :: "yaml \<Rightarrow> string list \<Rightarrow> yaml option" where
  "yaml_path y [] = Some y"
| "yaml_path y (k # ks) =
     (case yaml_get y k of
        None \<Rightarrow> None
      | Some y' \<Rightarrow> yaml_path y' ks)"

fun yaml_items :: "yaml option \<Rightarrow> yaml list" where
  "yaml_items (Some (Sequence ys)) = ys"
| "yaml_items _ = []"

text \<open>
  The item of an expected resource list that carries the given path
  annotation.
\<close>

definition item_at :: "test_command \<Rightarrow> string \<Rightarrow> yaml option" where
  "item_at c p =
     (case command_stdout c of
        None \<Rightarrow> None
      | Some out \<Rightarrow>
          find (\<lambda>i. yaml_path i [''metadata'', ''annotations'', ''internal.config.kubernetes.io/path'']
                      = Some (Scalar p))
            (yaml_items (yaml_get out ''items'')))"

text \<open>The value of a flag \<^verbatim>\<open>--name=value\<close> among the arguments of a command.\<close>

definition flag_value :: "string \<Rightarrow> string list \<Rightarrow> string option" where
  "flag_value n as =
     (let prefix = ''--'' @ n @ ''='' in
      case find (\<lambda>a. take (length prefix) a = prefix) as of
        None \<Rightarrow> None
      | Some a \<Rightarrow> Some (drop (length prefix) a))"

section \<open>The package revision engine\<close>

text \<open>
  Modelled from the spec: the package revision engine (the operations
  \<^verbatim>\<open>create\<close>, \<^verbatim>\<open>clone\<close>, \<^verbatim>\<open>updateResources\<close>,
  \<^verbatim>\<open>propose\<close>, \<^verbatim>\<open>approve\<close>, \<^verbatim>\<open>reject\<close>,
  \<^verbatim>\<open>proposeDelete\<close> and \<^verbatim>\<open>delete\<close>, and the reading of a
  revision's resources) is not among the sources; of it there is only the
  expected output of a command-line test, embedded further below. The
  definitions of this section follow the data model and the table of
  operations of the specification (its sections 3, 4.F, 6 and 7).
\<close>

subsection \<open>Data model\<close>

text \<open>
  Modelled from the spec: the lifecycle of a package revision, one of
  \<open>Draft\<close>, \<open>Proposed\<close>, \<open>Published\<close> and \<open>DeletionProposed\<close>.
\<close>

datatype lifecycle = Draft | Proposed | Published | DeletionProposed

datatype upstream_kind = Git | Oci

text \<open>
  Modelled from the spec: the optional upstream of a revision,
  \<^verbatim>\<open>{kind: git|oci, locator, lock}\<close>. The locator of a git upstream is
  its repository, directory and ref; the lock adds the immutable identifier (a
  commit hash or a digest) to the upstream.
\<close>

record Locator =
  repo :: string
  directory :: string
  ref :: string

record Upstream =
  kind :: upstream_kind
  locator :: Locator

record UpstreamLock = Upstream +
  lock :: string

text \<open>
  Modelled from the spec: the manifest file of a bundle carries \<^verbatim>\<open>upstream\<close>,
  \<^verbatim>\<open>upstreamLock\<close> and an optional pipeline, an ordered list of
  function invocations (here their images); its other fields are kept as
  they are.
\<close>

record Kptfile =
  manifest_upstream :: "Upstream option"
  manifest_upstreamLock :: "UpstreamLock option"
  manifest_pipeline :: "string list"
  manifest_other :: string

text \<open>
  Modelled from the spec: a bundle maps relative file paths to file contents. The manifest is the
  file with the well-known name; its contents are modelled parsed, and so are
  those of the other structured documents.
\<close>

datatype contents = Manifest Kptfile | Document yaml | Text string

type_synonym resource_bundle = "string \<rightharpoonup> contents"

definition manifest_path :: string where
  "manifest_path = ''Kptfile''"

definition manifest_of :: "resource_bundle \<Rightarrow> Kptfile option" where
  "manifest_of b =
     (case b manifest_path of
        Some (Manifest k) \<Rightarrow> Some k
      | _ \<Rightarrow> None)"

text \<open>
  Modelled from the spec: the render status, the result of the last pipeline
  execution, is success or an error list.
\<close>

datatype render_status = Rendered | RenderFailed "string list"

text \<open>
  Modelled from the spec: a package revision, with its key (repository, package path and revision id (a label
  such as \<^verbatim>\<open>v1\<close>, or the sentinel \<^verbatim>\<open>draft\<close>), its lifecycle, its
  resources, its optional upstream, its render status, and when and by whom it
  was created.
\<close>

type_synonym revision_key = "string \<times> string \<times> string"

definition repository_of :: "revision_key \<Rightarrow> string" where
  "repository_of k = fst k"

definition package_of :: "revision_key \<Rightarrow> string" where
  "package_of k = fst (snd k)"

definition revision_id_of :: "revision_key \<Rightarrow> string" where
  "revision_id_of k = snd (snd k)"

record PackageRevision =
  key :: revision_key
  lifecycle :: lifecycle
  resources :: resource_bundle
  upstream :: "UpstreamLock option"
  renderStatus :: render_status
  createdAt :: nat
  createdBy :: string

text \<open>
  Modelled from the spec: the state the engine works on: which repositories are writable, the package
  revisions (at most one per key) and the time, which stamps
  \<^verbatim>\<open>createdAt\<close>.
\<close>

record engine =
  writable :: "string \<Rightarrow> bool"
  revisions :: "PackageRevision list"
  now :: nat

text \<open>
  Modelled from the spec: the collaborators of the engine: the resolution of an upstream to its
  immutable identifier and its files (\<open>None\<close> when it cannot be resolved),
  and the rendering pipeline, which answers with its error list (empty on
  success).
\<close>

record collaborators =
  resolve :: "Upstream \<Rightarrow> (string \<times> resource_bundle) option"
  render :: "resource_bundle \<Rightarrow> string list"

text \<open>Modelled from the spec: the error kinds the engine distinguishes.\<close>

datatype engine_error =
  ErrNotFound | ErrConflict | ErrInvalidArgument | ErrUnauthorized
  | ErrUnavailable | ErrInternal | ErrCanceled | ErrDeadlineExceeded

subsection \<open>Access to the revisions\<close>

definition find_revision :: "engine \<Rightarrow> revision_key \<Rightarrow> PackageRevision option" where
  "find_revision s k = find (\<lambda>rv. key rv = k) (revisions s)"

definition put_revision :: "engine \<Rightarrow> revision_key \<Rightarrow> PackageRevision \<Rightarrow> engine" where
  "put_revision s k rv' =
     s\<lparr>revisions := map (\<lambda>rv. if key rv = k then rv' else rv) (revisions s)\<rparr>"

definition remove_revision :: "engine \<Rightarrow> revision_key \<Rightarrow> engine" where
  "remove_revision s k = s\<lparr>revisions := filter (\<lambda>rv. key rv \<noteq> k) (revisions s)\<rparr>"

definition add_revision :: "engine \<Rightarrow> PackageRevision \<Rightarrow> engine" where
  "add_revision s rv = s\<lparr>revisions := rv # revisions s, now := Suc (now s)\<rparr>"

text \<open>
  Modelled from the spec: reading the resources of a revision gives its
  bundle, and \<open>NotFound\<close> when the key is not present.
\<close>

definition read_resources :: "engine \<Rightarrow> revision_key \<Rightarrow> engine_error + resource_bundle" where
  "read_resources s k =
     (case find_revision s k of
        None \<Rightarrow> Inl ErrNotFound
      | Some rv \<Rightarrow> Inr (resources rv))"

subsection \<open>Rendering\<close>

text \<open>
  Modelled from the spec: after \<^verbatim>\<open>updateResources\<close> and \<^verbatim>\<open>clone\<close>, if the manifest
  declares a function pipeline, the engine invokes the rendering pipeline; the
  resources are stored whether it fails or not, and the status carries the
  error list.
\<close>

definition declares_pipeline :: "resource_bundle \<Rightarrow> bool" where
  "declares_pipeline b =
     (case manifest_of b of
        None \<Rightarrow> False
      | Some k \<Rightarrow> manifest_pipeline k \<noteq> [])"

definition render_bundle :: "collaborators \<Rightarrow> resource_bundle \<Rightarrow> render_status" where
  "render_bundle env b =
     (if declares_pipeline b then
        (case render env b of
           [] \<Rightarrow> Rendered
         | errs \<Rightarrow> RenderFailed errs)
      else Rendered)"

subsection \<open>Revision ids\<close>

text \<open>
  Modelled from the spec: on approval a revision whose id is the sentinel \<^verbatim>\<open>draft\<close> is given
  the next integer after the highest existing one of its package, as
  \<^verbatim>\<open>v1\<close>, \<^verbatim>\<open>v2\<close>, ...; ids that are not of that form do not
  take part in the numbering.
\<close>

definition digit_value :: "char \<Rightarrow> nat option" where
  "digit_value ch =
     map_of [(CHR ''0'', 0), (CHR ''1'', 1), (CHR ''2'', 2), (CHR ''3'', 3), (CHR ''4'', 4),
             (CHR ''5'', 5), (CHR ''6'', 6), (CHR ''7'', 7), (CHR ''8'', 8), (CHR ''9'', 9)] ch"

fun parse_decimal :: "nat \<Rightarrow> string \<Rightarrow> nat option" where
  "parse_decimal acc [] = Some acc"
| "parse_decimal acc (ch # cs) =
     (case digit_value ch of
        None \<Rightarrow> None
      | Some d \<Rightarrow> parse_decimal (10 * acc + d) cs)"

definition revision_number :: "string \<Rightarrow> nat option" where
  "revision_number rid =
     (if 1 < length rid \<and> take 1 rid = ''v'' then parse_decimal 0 (drop 1 rid) else None)"

definition highest_revision :: "engine \<Rightarrow> string \<Rightarrow> string \<Rightarrow> nat" where
  "highest_revision s r p =
     fold max
       (List.map_filter
          (\<lambda>rv. if repository_of (key rv) = r \<and> package_of (key rv) = p
                then revision_number (revision_id_of (key rv)) else None)
          (revisions s))
       0"

definition next_revision_id :: "engine \<Rightarrow> string \<Rightarrow> string \<Rightarrow> string" where
  "next_revision_id s r p = ''v'' @ decimal (Suc (highest_revision s r p))"

subsection \<open>Operations\<close>

text \<open>
  Modelled from the spec: \<^verbatim>\<open>create(draft)\<close> of the engine, whose code is not
  among the sources. Preconditions: the repository is writable; the
  revision id is \<^verbatim>\<open>draft\<close> or absent (the empty string). Postcondition:
  a new entry in \<open>Draft\<close>. A violated precondition is a conflict, and so is a
  second revision with the same id in a package.
\<close>

definition create :: "engine \<Rightarrow> revision_key \<Rightarrow> string \<Rightarrow> engine_error + engine" where
  "create s k who =
     (let k' = (repository_of k, package_of k, ''draft'') in
      if \<not> writable s (repository_of k) then Inl ErrConflict
      else if revision_id_of k \<noteq> ''draft'' \<and> revision_id_of k \<noteq> [] then Inl ErrConflict
      else if find_revision s k' \<noteq> None then Inl ErrConflict
      else Inr (add_revision s
             \<lparr>key = k', lifecycle = Draft, resources = Map.empty, upstream = None,
              renderStatus = Rendered, createdAt = now s, createdBy = who\<rparr>))"

text \<open>
  Modelled from the spec: on clone the engine writes upstream and lock into
  the manifest file inside the bundle before the first commit. A bundle
  without manifest gets one.
\<close>

definition empty_manifest :: Kptfile where
  "empty_manifest =
     \<lparr>manifest_upstream = None, manifest_upstreamLock = None, manifest_pipeline = [],
      manifest_other = []\<rparr>"

definition write_lock :: "resource_bundle \<Rightarrow> UpstreamLock \<Rightarrow> resource_bundle" where
  "write_lock b l =
     (let k = (case manifest_of b of None \<Rightarrow> empty_manifest | Some k \<Rightarrow> k) in
      b(manifest_path \<mapsto>
          Manifest (k\<lparr>manifest_upstream := Some \<lparr>kind = kind l, locator = locator l\<rparr>,
                     manifest_upstreamLock := Some l\<rparr>)))"

text \<open>
  Modelled from the spec: \<^verbatim>\<open>clone(upstream, target)\<close> of the engine, whose
  code is not among the sources. Precondition: the upstream is
  resolvable. Postcondition: a new \<open>Draft\<close> in the target, whose manifest
  carries upstream and lock. A target that exists already is a conflict.
\<close>

definition clone ::
  "collaborators \<Rightarrow> engine \<Rightarrow> Upstream \<Rightarrow> revision_key \<Rightarrow> string \<Rightarrow> engine_error + engine" where
  "clone env s up target who =
     (case resolve env up of
        None \<Rightarrow> Inl ErrConflict
      | Some (identifier, files) \<Rightarrow>
          if find_revision s target \<noteq> None then Inl ErrConflict
          else
            (let l = \<lparr>kind = kind up, locator = locator up, lock = identifier\<rparr>;
                 b = write_lock files l
             in Inr (add_revision s
                  \<lparr>key = target, lifecycle = Draft, resources = b, upstream = Some l,
                   renderStatus = render_bundle env b, createdAt = now s,
                   createdBy = who\<rparr>)))"

text \<open>
  Modelled from the spec: \<^verbatim>\<open>updateResources(key, bundle)\<close> of the engine,
  whose code is not among the sources. Precondition: the lifecycle is
  \<open>Draft\<close>. Postcondition: the draft bundle is replaced and the render status
  recomputed.
\<close>

definition updateResources ::
  "collaborators \<Rightarrow> engine \<Rightarrow> revision_key \<Rightarrow> resource_bundle \<Rightarrow> engine_error + engine" where
  "updateResources env s k b =
     (case find_revision s k of
        None \<Rightarrow> Inl ErrNotFound
      | Some rv \<Rightarrow>
          if lifecycle rv \<noteq> Draft then Inl ErrConflict
          else Inr (put_revision s k
                 (rv\<lparr>resources := b, renderStatus := render_bundle env b\<rparr>)))"

text \<open>
  Modelled from the spec: \<^verbatim>\<open>propose(key)\<close> of the engine, whose code is not
  among the sources. Precondition: the lifecycle is \<open>Draft\<close>; it is
  refused until rendering succeeds. Postcondition: the lifecycle is
  \<open>Proposed\<close>.
\<close>

definition propose :: "engine \<Rightarrow> revision_key \<Rightarrow> engine_error + engine" where
  "propose s k =
     (case find_revision s k of
        None \<Rightarrow> Inl ErrNotFound
      | Some rv \<Rightarrow>
          if lifecycle rv \<noteq> Draft then Inl ErrConflict
          else if renderStatus rv \<noteq> Rendered then Inl ErrConflict
          else Inr (put_revision s k (rv\<lparr>lifecycle := Proposed\<rparr>)))"

text \<open>
  Modelled from the spec: \<^verbatim>\<open>approve(key)\<close> of the engine, whose code is not
  among the sources. Precondition: the lifecycle is \<open>Proposed\<close>.
  Postcondition: the lifecycle is \<open>Published\<close>, and the revision id is
  assigned if it was \<^verbatim>\<open>draft\<close>. Publishing fails with a conflict if a
  revision already exists at the assigned id.
\<close>

definition approve :: "engine \<Rightarrow> revision_key \<Rightarrow> engine_error + engine" where
  "approve s k =
     (case find_revision s k of
        None \<Rightarrow> Inl ErrNotFound
      | Some rv \<Rightarrow>
          if lifecycle rv \<noteq> Proposed then Inl ErrConflict
          else if revision_id_of k = ''draft'' then
            (let k' = (repository_of k, package_of k,
                       next_revision_id s (repository_of k) (package_of k))
             in if find_revision s k' \<noteq> None then Inl ErrConflict
                else Inr (put_revision s k (rv\<lparr>key := k', lifecycle := Published\<rparr>)))
          else Inr (put_revision s k (rv\<lparr>lifecycle := Published\<rparr>)))"

text \<open>
  Modelled from the spec: \<^verbatim>\<open>reject(key)\<close> of the engine, whose code is not
  among the sources. Precondition: the lifecycle is \<open>Proposed\<close>.
  Postcondition: the lifecycle is \<open>Draft\<close>.
\<close>

definition reject :: "engine \<Rightarrow> revision_key \<Rightarrow> engine_error + engine" where
  "reject s k =
     (case find_revision s k of
        None \<Rightarrow> Inl ErrNotFound
      | Some rv \<Rightarrow>
          if lifecycle rv \<noteq> Proposed then Inl ErrConflict
          else Inr (put_revision s k (rv\<lparr>lifecycle := Draft\<rparr>)))"

text \<open>
  Modelled from the spec: \<^verbatim>\<open>proposeDelete(key)\<close> of the engine, whose code
  is not among the sources. Precondition: the lifecycle is
  \<open>Published\<close>. Postcondition: the lifecycle is \<open>DeletionProposed\<close>.
\<close>

definition proposeDelete :: "engine \<Rightarrow> revision_key \<Rightarrow> engine_error + engine" where
  "proposeDelete s k =
     (case find_revision s k of
        None \<Rightarrow> Inl ErrNotFound
      | Some rv \<Rightarrow>
          if lifecycle rv \<noteq> Published then Inl ErrConflict
          else Inr (put_revision s k (rv\<lparr>lifecycle := DeletionProposed\<rparr>)))"

text \<open>
  Modelled from the spec: \<^verbatim>\<open>delete(key)\<close> of the engine, whose code is not
  among the sources. Precondition: the lifecycle is \<open>Draft\<close> or
  \<open>DeletionProposed\<close>. Postcondition: the revision is removed.
\<close>

definition delete :: "engine \<Rightarrow> revision_key \<Rightarrow> engine_error + engine" where
  "delete s k =
     (case find_revision s k of
        None \<Rightarrow> Inl ErrNotFound
      | Some rv \<Rightarrow>
          if lifecycle rv \<noteq> Draft \<and> lifecycle rv \<noteq> DeletionProposed then Inl ErrConflict
          else Inr (remove_revision s k))"

subsection \<open>Sequences of operations\<close>

text \<open>The public operations of the engine, and what each of them does to the state.\<close>

datatype operation =
  Create revision_key string
  | Clone Upstream revision_key string
  | UpdateResources revision_key resource_bundle
  | Propose revision_key
  | Approve revision_key
  | Reject revision_key
  | ProposeDelete revision_key
  | Delete revision_key

fun step :: "collaborators \<Rightarrow> engine \<Rightarrow> operation \<Rightarrow> engine_error + engine" where
  "step env s (Create k who) = create s k who"
| "step env s (Clone up target who) = clone env s up target who"
| "step env s (UpdateResources k b) = updateResources env s k b"
| "step env s (Propose k) = propose s k"
| "step env s (Approve k) = approve s k"
| "step env s (Reject k) = reject s k"
| "step env s (ProposeDelete k) = proposeDelete s k"
| "step env s (Delete k) = delete s k"

text \<open>
  A sequence of operations: an operation that is refused leaves the state as
  it was.
\<close>

fun steps :: "collaborators \<Rightarrow> engine \<Rightarrow> operation list \<Rightarrow> engine" where
  "steps env s [] = s"
| "steps env s (x # xs) =
     (case step env s x of
        Inl failure \<Rightarrow> steps env s xs
      | Inr s' \<Rightarrow> steps env s' xs)"

text \<open>
  The revisions have distinct keys and distinct creation stamps, all of them in
  the past.
\<close>

definition well_formed :: "engine \<Rightarrow> bool" where
  "well_formed s \<longleftrightarrow>
     distinct (map key (revisions s)) \<and>
     distinct (map createdAt (revisions s)) \<and>
     list_all (\<lambda>rv. createdAt rv < now s) (revisions s)"

text \<open>The transitions of the lifecycle that the operations make.\<close>

fun transition :: "lifecycle \<Rightarrow> lifecycle \<Rightarrow> bool" where
  "transition Draft Draft = True"
| "transition Draft Proposed = True"
| "transition Proposed Published = True"
| "transition Proposed Draft = True"
| "transition Published DeletionProposed = True"
| "transition _ _ = False"


text \<open>The lock that the manifest of a bundle records, if any.\<close>

definition manifest_lock :: "resource_bundle \<Rightarrow> string option" where
  "manifest_lock b =
     (case manifest_of b of
        None \<Rightarrow> None
      | Some m \<Rightarrow> map_option lock (manifest_upstreamLock m))"


text \<open>A git commit hash: forty hexadecimal characters.\<close>

definition is_commit_hash :: "string \<Rightarrow> bool" where
  "is_commit_hash h \<longleftrightarrow> length h = 40 \<and> list_all (\<lambda>ch. ch \<in> set ''0123456789abcdef'') h"

subsection \<open>The clone of the test as an input of the engine\<close>

text \<open>
  The upstream, the target and the commit of the test above, and upstream
  files that fit its expected output: a manifest without upstream and a
  namespace named \<^verbatim>\<open>example\<close>.
\<close>

definition golden_upstream :: Upstream where
  "golden_upstream =
     \<lparr>kind = Git,
      locator = \<lparr>repo = ''https://github.com/platkrm/test-blueprints.git'',
                 directory = ''basens'', ref = ''basens/v1''\<rparr>\<rparr>"

definition golden_commit :: string where
  "golden_commit = ''67f29546028f0a48c6bbb08614934d0e070cdd3a''"

definition golden_target :: revision_key where
  "golden_target = (''git'', ''basens-clone'', ''v0'')"

definition namespace_document :: yaml where
  "namespace_document =
     Mapping
      [(''apiVersion'', Scalar ''v1''),
       (''kind'', Scalar ''Namespace''),
       (''metadata'', Mapping [(''name'', Scalar ''example'')])]"

definition basens_files :: resource_bundle where
  "basens_files =
     [''Kptfile'' \<mapsto> Manifest
         \<lparr>manifest_upstream = None, manifest_upstreamLock = None, manifest_pipeline = [],
          manifest_other = ''info: {description: sample description}''\<rparr>,
      ''namespace.yaml'' \<mapsto> Document namespace_document]"

definition golden_collaborators :: collaborators where
  "golden_collaborators =
     \<lparr>resolve = (\<lambda>u. if u = golden_upstream then Some (golden_commit, basens_files) else None),
      render = (\<lambda>b. [])\<rparr>"

definition empty_engine :: engine where
  "empty_engine = \<lparr>writable = (\<lambda>r. True), revisions = [], now = 0\<rparr>"

definition cloned_revision :: PackageRevision where
  "cloned_revision =
     \<lparr>key = golden_target, lifecycle = Draft,
      resources = write_lock basens_files
        \<lparr>kind = Git, locator = locator golden_upstream, lock = golden_commit\<rparr>,
      upstream = Some \<lparr>kind = Git, locator = locator golden_upstream, lock = golden_commit\<rparr>,
      renderStatus = Rendered, createdAt = 0, createdBy = ''porch''\<rparr>"


text \<open>
  A bundle as a client may submit it: the files of the clone, with another
  commit in the lock of the manifest.
\<close>

definition edited_bundle :: resource_bundle where
  "edited_bundle =
     basens_files(''Kptfile'' \<mapsto> Manifest
         \<lparr>manifest_upstream = Some golden_upstream,
          manifest_upstreamLock = Some
            \<lparr>kind = Git, locator = locator golden_upstream,
             lock = ''0000000000000000000000000000000000000000''\<rparr>,
          manifest_pipeline = [],
          manifest_other = ''info: {description: sample description}''\<rparr>)"

text \<open>A published revision, and an engine that holds it.\<close>

definition published_revision :: PackageRevision where
  "published_revision =
     \<lparr>key = (''git'', ''basens-clone'', ''v1''), lifecycle = Published,
      resources = basens_files, upstream = None, renderStatus = Rendered,
      createdAt = 0, createdBy = ''porch''\<rparr>"

definition published_engine :: engine where
  "published_engine = \<lparr>writable = (\<lambda>r. True), revisions = [published_revision], now = 1\<rparr>"

text \<open>
  The sections \<^verbatim>\<open>upstream.git\<close> and \<^verbatim>\<open>upstreamLock.git\<close> of
  a manifest, as the expected output prints them.
\<close>

definition git_section :: "Locator \<Rightarrow> yaml" where
  "git_section l =
     Mapping [(''directory'', Scalar (directory l)), (''ref'', Scalar (ref l)),
              (''repo'', Scalar (repo l))]"

definition git_lock_section :: "UpstreamLock \<Rightarrow> yaml" where
  "git_lock_section l =
     Mapping [(''commit'', Scalar (lock l)), (''directory'', Scalar (directory (locator l))),
              (''ref'', Scalar (ref (locator l))), (''repo'', Scalar (repo (locator l)))]"

section \<open>Properties of the wrapper server\<close>

text \<open>
  C1. When the entrypoint process ends with an exit error, \<open>EvaluateFunction\<close>
  returns no RPC error: it returns a response, whose log is what the process
  wrote to standard error. An RPC error is returned exactly when
  \<^verbatim>\<open>cmd.Run()\<close> fails with an error that is not an exit error (the
  process could not be started, or failed otherwise), and its code is then
  \<open>Internal\<close>.
\<close>

theorem EvaluateFunction_error_classification:
  assumes "Run \<lparr>Path = name, Args = name # arg, Stdin = Request_ResourceList req\<rparr> = r"
  shows "(\<forall>c. err r = Some (ExitError c) \<longrightarrow>
            (\<exists>resp. snd (EvaluateFunction (name # arg) Run req) = Returned (Inr resp)
               \<and> Response_Log resp = stderr r))
       \<and> ((\<exists>st. snd (EvaluateFunction (name # arg) Run req) = Returned (Inl st) \<and> Code st = Internal)
            \<longleftrightarrow> (\<exists>m. err r = Some (OtherError m)))
       \<and> (\<forall>st. snd (EvaluateFunction (name # arg) Run req) = Returned (Inl st) \<longrightarrow> Code st = Internal)"
proof -
  consider (ok) "err r = None" | (exit) c where "err r = Some (ExitError c)"
    | (other) m where "err r = Some (OtherError m)"
    by (metis option.exhaust run_error.exhaust)
  then show ?thesis
  proof cases
    case ok
    with assms show ?thesis
      by (simp add: EvaluateFunction_def CommandContext_def)
  next
    case exit
    with assms show ?thesis
      by (simp add: EvaluateFunction_def CommandContext_def)
  next
    case other
    with assms show ?thesis
      by (simp add: EvaluateFunction_def CommandContext_def Errorf_def)
  qed
qed

theorem EvaluateFunction_error_classification_witness:
  "\<exists>resp. snd (EvaluateFunction [''/fn''] failing_function some_request) = Returned (Inr resp)
      \<and> Response_Log resp = ''error: bad input''"
  using EvaluateFunction_error_classification
    [of failing_function "''/fn''" "[]" some_request "failing_function \<lparr>Path = ''/fn'', Args = [''/fn''], Stdin = Request_ResourceList some_request\<rparr>"]
  by (simp add: failing_function_def)

text \<open>
  C2, as stated, promises a result list of structured diagnostics in the
  response. The function below exits with status 1 and a diagnostic on
  standard error; the result list of the response is empty.
\<close>

theorem EvaluateFunction_results_counterexample:
  "snd (EvaluateFunction [''/fn''] failing_function some_request) =
     Returned (Inr \<lparr>Response_ResourceList = ''items: []'', Response_Log = ''error: bad input'',
                     Response_Results = []\<rparr>)"
  by (simp add: EvaluateFunction_def CommandContext_def failing_function_def)

text \<open>
  C2, amended. When the entrypoint process completes (with or without an exit
  error), the response carries the bytes the process wrote to standard output
  as its resource list and the bytes it wrote to standard error as its log;
  the server sets no result list, which stays empty.
\<close>

theorem EvaluateFunction_response:
  assumes "Run \<lparr>Path = name, Args = name # arg, Stdin = Request_ResourceList req\<rparr> = r"
    and "err r = None \<or> (\<exists>c. err r = Some (ExitError c))"
  shows "snd (EvaluateFunction (name # arg) Run req) =
           Returned (Inr \<lparr>Response_ResourceList = stdout r, Response_Log = stderr r,
                           Response_Results = []\<rparr>)"
  using assms by (auto simp: EvaluateFunction_def CommandContext_def)

theorem EvaluateFunction_response_witness:
  "snd (EvaluateFunction [''/fn'', ''--flag''] succeeding_function some_request) =
     Returned (Inr \<lparr>Response_ResourceList = ''kind: ResourceList'', Response_Log = [],
                     Response_Results = []\<rparr>)"
  using EvaluateFunction_response
    [of succeeding_function "''/fn''" "[''--flag'']" some_request
        "succeeding_function \<lparr>Path = ''/fn'', Args = [''/fn'', ''--flag''], Stdin = Request_ResourceList some_request\<rparr>"]
  by (simp add: succeeding_function_def some_request_def)



text \<open>
  C7. \<open>Watch\<close> makes a single \<^verbatim>\<open>Send\<close>, of a response with status
  \<open>SERVING\<close>, and returns: on an intact stream the client receives exactly
  that one message and then the end of the stream.
\<close>

theorem Watch_single_shot:
  "Watch_reply req None = [Message \<lparr>Status = SERVING\<rparr>, End_of_stream None]
   \<and> Watch req srv = Send srv \<lparr>Status = SERVING\<rparr>
   \<and> (transport_error srv = None \<longrightarrow>
        Watch req srv = (None, srv\<lparr>sent := sent srv @ [\<lparr>Status = SERVING\<rparr>]\<rparr>))"
  by (simp add: Watch_reply_def Watch_def Send_def)

theorem Watch_single_shot_witness:
  "Watch \<lparr>Service = []\<rparr> \<lparr>sent = [], transport_error = None\<rparr> =
     (None, \<lparr>sent = [\<lparr>Status = SERVING\<rparr>], transport_error = None\<rparr>)"
  using Watch_single_shot [where req = "\<lparr>Service = []\<rparr>" and srv = "\<lparr>sent = [], transport_error = None\<rparr>"]
  by (simp add: Send_def)

text \<open>
  C8. When the command line has no \<^verbatim>\<open>--\<close> separator, or nothing after
  it, the entrypoint is empty, and every \<open>EvaluateFunction\<close> call then panics
  on \<^verbatim>\<open>e.entrypoint[0]\<close> before any command is run, instead of
  returning an error. With a non-empty entrypoint the call does not panic.
\<close>

theorem empty_entrypoint_panics:
  "((argsLenAtDash = -1 \<or> argsLenAtDash = int (length args)) \<longrightarrow>
      (\<exists>op. main_options port_flag args argsLenAtDash = Returned op \<and> entrypoint op = []))
   \<and> EvaluateFunction [] Run req = ([], Panicked ''index out of range [0] with length 0'')
   \<and> (e \<noteq> [] \<longrightarrow> (\<forall>msg. snd (EvaluateFunction e Run req) \<noteq> Panicked msg))"
proof -
  have a: "\<exists>op. main_options port_flag args argsLenAtDash = Returned op \<and> entrypoint op = []"
    if "argsLenAtDash = -1 \<or> argsLenAtDash = int (length args)"
    using that
    by (auto simp: main_options_def RunE_def IntVar_port_def new_options_def split: option.splits)
  have b: "EvaluateFunction [] Run req = ([], Panicked ''index out of range [0] with length 0'')"
    by (simp add: EvaluateFunction_def)
  have c: "snd (EvaluateFunction e Run req) \<noteq> Panicked msg" if "e \<noteq> []" for msg
    using that by (cases e) (auto simp: EvaluateFunction_def Let_def)
  from a b c show ?thesis by blast
qed

theorem empty_entrypoint_panics_witness:
  "(\<exists>op. main_options None [] 0 = Returned op \<and> entrypoint op = [])
   \<and> (\<forall>msg. snd (EvaluateFunction [''/fn''] failing_function some_request) \<noteq> Panicked msg)"
  using empty_entrypoint_panics [where argsLenAtDash = 0 and args = "[]" and port_flag = None
      and e = "[''/fn'']" and Run = failing_function and req = some_request]
  by simp

section \<open>Properties of the test credentials\<close>

text \<open>
  C9. \<open>Password.String()\<close> is the same mask of thirteen asterisks for every
  password: it does not depend on the secret, so no two passwords differ in
  their rendering.
\<close>

theorem Password_String_mask:
  "Password_String p = ''*************'' \<and> length (Password_String p) = 13
   \<and> Password_String p = Password_String q"
  by (simp add: Password_String_def)

section \<open>Properties of the update strategy\<close>

text \<open>
  C10. \<open>NoopUpdateStrategy\<close> accepts every update and changes nothing:
  \<open>ValidateUpdate\<close> returns the empty error list, and \<open>PrepareForUpdate\<close>,
  \<open>ValidateUpdate\<close> and \<open>Canonicalize\<close> leave the objects as they were.
\<close>

theorem NoopUpdateStrategy_noop:
  "ValidateUpdate ctx obj old = ([], obj, old)
   \<and> PrepareForUpdate ctx obj old = (obj, old)
   \<and> Canonicalize obj = obj"
  by (simp add: ValidateUpdate_def PrepareForUpdate_def Canonicalize_def)

section \<open>Properties of the package revision engine\<close>

subsection \<open>What a step does to the revisions\<close>

text \<open>
  An operation that succeeds adds a new draft, replaces the revision at a key
  or removes it.
\<close>

lemma find_revision_Some:
  "find_revision s k = Some rv \<Longrightarrow> rv \<in> set (revisions s) \<and> key rv = k"
  by (auto simp: find_revision_def find_Some_iff)

lemma find_revision_None:
  "find_revision s k = None \<longleftrightarrow> (\<forall>rv \<in> set (revisions s). key rv \<noteq> k)"
  by (auto simp: find_revision_def find_None_iff)

lemma step_cases [consumes 1, case_names Added Replaced Removed]:
  assumes "step env s x = Inr s'"
  obtains
    (Added) rv where "revisions s' = rv # revisions s" "now s' = Suc (now s)"
      "createdAt rv = now s" "lifecycle rv = Draft" "find_revision s (key rv) = None"
  | (Replaced) k rv rv' where "find_revision s k = Some rv"
      "revisions s' = map (\<lambda>y. if key y = k then rv' else y) (revisions s)"
      "now s' = now s" "createdAt rv' = createdAt rv" "upstream rv' = upstream rv"
      "transition (lifecycle rv) (lifecycle rv')"
      "key rv' = k \<or> (lifecycle rv = Proposed \<and> find_revision s (key rv') = None)"
      "resources rv' = resources rv \<or> x = UpdateResources k (resources rv')"
  | (Removed) k rv where "find_revision s k = Some rv"
      "lifecycle rv = Draft \<or> lifecycle rv = DeletionProposed"
      "revisions s' = filter (\<lambda>y. key y \<noteq> k) (revisions s)" "now s' = now s"
proof (cases x)
  case (Create k who)
  with assms show ?thesis
    by (intro Added [of "\<lparr>key = (repository_of k, package_of k, ''draft''), lifecycle = Draft,
          resources = Map.empty, upstream = None, renderStatus = Rendered, createdAt = now s,
          createdBy = who\<rparr>"])
       (auto simp: create_def Let_def add_revision_def split: if_splits)
next
  case (Clone up target who)
  with assms obtain ident files where r: "resolve env up = Some (ident, files)"
    and n: "find_revision s target = None"
    by (auto simp: clone_def split: option.splits if_splits)
  with assms Clone show ?thesis
    by (intro Added [of "\<lparr>key = target, lifecycle = Draft,
          resources = write_lock files \<lparr>kind = kind up, locator = locator up, lock = ident\<rparr>,
          upstream = Some \<lparr>kind = kind up, locator = locator up, lock = ident\<rparr>,
          renderStatus = render_bundle env
            (write_lock files \<lparr>kind = kind up, locator = locator up, lock = ident\<rparr>),
          createdAt = now s, createdBy = who\<rparr>"])
       (auto simp: clone_def Let_def add_revision_def)
next
  case (UpdateResources k b)
  with assms obtain rv where f: "find_revision s k = Some rv" and l: "lifecycle rv = Draft"
    by (auto simp: updateResources_def split: option.splits if_splits)
  with assms UpdateResources show ?thesis
    by (intro Replaced [of k rv "rv\<lparr>resources := b, renderStatus := render_bundle env b\<rparr>"])
       (auto simp: updateResources_def put_revision_def dest: find_revision_Some)
next
  case (Propose k)
  with assms obtain rv where f: "find_revision s k = Some rv" and l: "lifecycle rv = Draft"
    by (auto simp: propose_def split: option.splits if_splits)
  with assms Propose show ?thesis
    by (intro Replaced [of k rv "rv\<lparr>lifecycle := Proposed\<rparr>"])
       (auto simp: propose_def put_revision_def split: if_splits dest: find_revision_Some)
next
  case (Approve k)
  with assms obtain rv where f: "find_revision s k = Some rv" and l: "lifecycle rv = Proposed"
    by (auto simp: approve_def split: option.splits if_splits)
  show ?thesis
  proof (cases "revision_id_of k = ''draft''")
    case True
    define k' where "k' = (repository_of k, package_of k,
                       next_revision_id s (repository_of k) (package_of k))"
    with assms Approve f l True show ?thesis
      by (intro Replaced [of k rv "rv\<lparr>key := k', lifecycle := Published\<rparr>"])
         (auto simp: approve_def put_revision_def Let_def split: if_splits)
  next
    case False
    with assms Approve f l show ?thesis
      by (intro Replaced [of k rv "rv\<lparr>lifecycle := Published\<rparr>"])
         (auto simp: approve_def put_revision_def dest: find_revision_Some)
  qed
next
  case (Reject k)
  with assms obtain rv where f: "find_revision s k = Some rv" and l: "lifecycle rv = Proposed"
    by (auto simp: reject_def split: option.splits if_splits)
  with assms Reject show ?thesis
    by (intro Replaced [of k rv "rv\<lparr>lifecycle := Draft\<rparr>"])
       (auto simp: reject_def put_revision_def dest: find_revision_Some)
next
  case (ProposeDelete k)
  with assms obtain rv where f: "find_revision s k = Some rv" and l: "lifecycle rv = Published"
    by (auto simp: proposeDelete_def split: option.splits if_splits)
  with assms ProposeDelete show ?thesis
    by (intro Replaced [of k rv "rv\<lparr>lifecycle := DeletionProposed\<rparr>"])
       (auto simp: proposeDelete_def put_revision_def dest: find_revision_Some)
next
  case (Delete k)
  with assms obtain rv where f: "find_revision s k = Some rv"
    and l: "lifecycle rv = Draft \<or> lifecycle rv = DeletionProposed"
    by (auto simp: delete_def split: option.splits if_splits)
  with assms Delete show ?thesis
    by (intro Removed [of k rv]) (auto simp: delete_def remove_revision_def split: if_splits)
qed

subsection \<open>Well-formed states\<close>

text \<open>
  In a well-formed state a creation stamp identifies a revision; the empty
  engine is well formed and every operation keeps the state well formed.
\<close>

lemma stamp_unique:
  assumes "well_formed s" "find_revision s k = Some rv" "y \<in> set (revisions s)"
    "createdAt y = createdAt rv"
  shows "y = rv"
proof -
  from assms(1) have "inj_on createdAt (set (revisions s))"
    by (simp add: well_formed_def distinct_map)
  with assms(2-4) show ?thesis
    by (auto dest: find_revision_Some inj_onD)
qed

lemma stamp_past:
  assumes "well_formed s" "find_revision s k = Some rv"
  shows "createdAt rv < now s"
  using assms by (auto simp: well_formed_def list_all_iff dest: find_revision_Some)

lemma distinct_map_replace:
  assumes "distinct (map g xs)" and "v = k \<or> v \<notin> g ` set xs"
  shows "distinct (map (\<lambda>y. if g y = k then v else g y) xs)"
proof -
  define h where "h = (\<lambda>y. if g y = k then v else g y)"
  have "distinct (map h xs)"
    using assms
  proof (induction xs)
    case Nil
    then show ?case by simp
  next
    case (Cons a xs)
    from Cons.prems have d: "distinct (map g xs)" and a: "g a \<notin> g ` set xs"
      and v: "v = k \<or> (v \<noteq> g a \<and> v \<notin> g ` set xs)"
      by auto
    from Cons.IH d v have ih: "distinct (map h xs)"
      by auto
    have "h a \<noteq> h y" if "y \<in> set xs" for y
      using that a v by (auto simp: image_iff h_def)
    then have "h a \<notin> h ` set xs" by blast
    with ih show ?case by simp
  qed
  then show ?thesis by (simp only: h_def)
qed

lemma key_unique:
  assumes "distinct (map key (revisions s))" "find_revision s k = Some rv"
    "y \<in> set (revisions s)" "key y = k"
  shows "y = rv"
proof -
  from assms(1) have "inj_on key (set (revisions s))"
    by (simp add: distinct_map)
  with assms(2-4) show ?thesis
    by (auto dest: find_revision_Some inj_onD)
qed

lemma step_well_formed:
  assumes st: "step env s x = Inr s'" and wf: "well_formed s"
  shows "well_formed s'"
  using st
proof (cases rule: step_cases)
  case (Added rv)
  from Added(5) have "key rv \<notin> key ` set (revisions s)"
    by (auto simp: find_revision_None)
  moreover from wf Added(3) have "createdAt rv \<notin> createdAt ` set (revisions s)"
    by (auto simp: well_formed_def list_all_iff)
  ultimately show ?thesis
    using wf Added(1,2,3) by (auto simp: well_formed_def list_all_iff)
next
  case (Replaced k rv rv')
  let ?f = "\<lambda>y. if key y = k then rv' else y"
  from wf have dk: "distinct (map key (revisions s))" by (simp add: well_formed_def)
  have only: "y = rv" if "y \<in> set (revisions s)" "key y = k" for y
    using key_unique [OF dk Replaced(1) that] .
  have "key rv' = k \<or> key rv' \<notin> key ` set (revisions s)"
    using Replaced(7) by (auto simp: find_revision_None)
  from distinct_map_replace [OF dk this]
  have k: "distinct (map key (map ?f (revisions s)))"
    by (simp add: comp_def if_distrib [of key] cong: if_cong)
  have e: "map createdAt (map ?f (revisions s)) = map createdAt (revisions s)"
    unfolding map_map by (rule map_cong) (use only Replaced(4) in auto)
  have c: "distinct (map createdAt (map ?f (revisions s)))"
    unfolding e using wf by (simp add: well_formed_def)
  have "list_all (\<lambda>y. createdAt y < now s) (map ?f (revisions s))"
    using wf Replaced(1,4) by (auto simp: well_formed_def list_all_iff dest: find_revision_Some)
  with k c Replaced(2,3) show ?thesis by (simp add: well_formed_def)
next
  case (Removed k rv)
  with wf show ?thesis
    by (auto simp: well_formed_def list_all_iff distinct_map_filter)
qed

lemma steps_well_formed:
  "well_formed s \<Longrightarrow> well_formed (steps env s xs)"
proof (induction xs arbitrary: s)
  case Nil
  then show ?case by simp
next
  case (Cons x xs)
  then show ?case
    by (cases "step env s x") (auto dest: step_well_formed)
qed

lemma empty_engine_well_formed: "well_formed empty_engine"
  by (simp add: well_formed_def empty_engine_def)

subsection \<open>Clone and read back\<close>

text \<open>
  The clone of the test, run on the engine, and the expected output of the
  test: the arguments of its clone command are the upstream of that clone,
  and the manifest and the namespace it expects are what the clone reads back.
\<close>

lemma clone_read_back_aux:
  assumes "resolve env up = Some (commit, files)" and "find_revision s target = None"
  shows "clone env s up target who = Inr (add_revision s
           \<lparr>key = target, lifecycle = Draft,
            resources = write_lock files \<lparr>kind = kind up, locator = locator up, lock = commit\<rparr>,
            upstream = Some \<lparr>kind = kind up, locator = locator up, lock = commit\<rparr>,
            renderStatus = render_bundle env
              (write_lock files \<lparr>kind = kind up, locator = locator up, lock = commit\<rparr>),
            createdAt = now s, createdBy = who\<rparr>)"
  using assms by (simp add: clone_def Let_def)


lemma golden_commit_hash: "is_commit_hash golden_commit"
  by (simp add: is_commit_hash_def golden_commit_def)

lemma expected_output_agrees:
  "flag_value ''directory'' (command_args clone_basens) = Some (directory (locator golden_upstream))
   \<and> flag_value ''ref'' (command_args clone_basens) = Some (ref (locator golden_upstream))
   \<and> repo (locator golden_upstream) \<in> set (command_args clone_basens)
   \<and> item_at pull_basens ''Kptfile'' = Some basens_kptfile
   \<and> yaml_path basens_kptfile [''upstream'', ''git''] = Some (git_section (locator golden_upstream))
   \<and> yaml_path basens_kptfile [''upstreamLock'', ''git''] =
       map_option git_lock_section (upstream cloned_revision)
   \<and> item_at pull_basens ''namespace.yaml'' = Some basens_namespace
   \<and> yaml_path basens_namespace [''metadata'', ''name''] = Some (Scalar ''example'')
   \<and> resources cloned_revision ''namespace.yaml'' = Some (Document namespace_document)
   \<and> yaml_path namespace_document [''metadata'', ''name''] =
       yaml_path basens_namespace [''metadata'', ''name'']
   \<and> yaml_path namespace_document [''kind''] = yaml_path basens_namespace [''kind'']"
  by (simp add: flag_value_def clone_basens_def golden_upstream_def item_at_def pull_basens_def
      basens_kptfile_def basens_namespace_def git_section_def git_lock_section_def
      cloned_revision_def golden_commit_def namespace_document_def write_lock_def
      manifest_path_def basens_files_def)

text \<open>
  C3. Cloning an upstream that resolves to a commit hash of forty hexadecimal
  characters into a target that does not exist yet succeeds with a new draft;
  reading the resources of the draft back yields a manifest whose upstream
  section is the upstream of the clone (its ref and directory among it) and
  whose lock records that commit hash, together with the other files of the
  upstream as they are.
\<close>

theorem clone_read_back:
  assumes "resolve env up = Some (commit, files)" and "find_revision s target = None"
    and "is_commit_hash commit"
  shows "\<exists>s' rv b m.
           clone env s up target who = Inr s' \<and>
           find_revision s' target = Some rv \<and> lifecycle rv = Draft \<and>
           upstream rv = Some \<lparr>kind = kind up, locator = locator up, lock = commit\<rparr> \<and>
           read_resources s' target = Inr b \<and> manifest_of b = Some m \<and>
           manifest_upstream m = Some up \<and>
           map_option (\<lambda>u. ref (locator u)) (manifest_upstream m) = Some (ref (locator up)) \<and>
           map_option (\<lambda>u. directory (locator u)) (manifest_upstream m)
             = Some (directory (locator up)) \<and>
           manifest_upstreamLock m = Some \<lparr>kind = kind up, locator = locator up, lock = commit\<rparr> \<and>
           manifest_lock b = Some commit \<and> is_commit_hash commit \<and>
           (\<forall>p. p \<noteq> manifest_path \<longrightarrow> b p = files p)"
proof -
  define l :: UpstreamLock where "l = \<lparr>kind = kind up, locator = locator up, lock = commit\<rparr>"
  define b where "b = write_lock files l"
  obtain m where m: "manifest_of b = Some m" "manifest_upstream m = Some up"
    "manifest_upstreamLock m = Some l"
    by (simp add: b_def write_lock_def manifest_of_def Let_def l_def)
  have o: "b p = files p" if "p \<noteq> manifest_path" for p
    using that by (simp add: b_def write_lock_def Let_def)
  define rv where "rv = \<lparr>key = target, lifecycle = Draft, resources = b, upstream = Some l,
      renderStatus = render_bundle env b, createdAt = now s, createdBy = who\<rparr>"
  have c: "clone env s up target who = Inr (add_revision s rv)"
    using clone_read_back_aux [OF assms(1,2)] by (simp add: rv_def b_def l_def)
  have f: "find_revision (add_revision s rv) target = Some rv"
    by (simp add: find_revision_def add_revision_def rv_def)
  have r: "read_resources (add_revision s rv) target = Inr b"
    by (simp add: read_resources_def f) (simp add: rv_def)
  have ml: "manifest_lock b = Some commit"
    by (simp add: manifest_lock_def m l_def)
  from c f r m o ml assms(3) show ?thesis
    unfolding l_def
    by (intro exI [of _ "add_revision s rv"] exI [of _ rv] exI [of _ b] exI [of _ m])
      (simp add: rv_def l_def)
qed

theorem clone_read_back_witness:
  "resolve golden_collaborators golden_upstream = Some (golden_commit, basens_files)
   \<and> find_revision empty_engine golden_target = None
   \<and> is_commit_hash golden_commit
   \<and> (\<exists>s' rv b m.
         clone golden_collaborators empty_engine golden_upstream golden_target ''porch'' = Inr s' \<and>
         find_revision s' golden_target = Some rv \<and> lifecycle rv = Draft \<and>
         read_resources s' golden_target = Inr b \<and> manifest_of b = Some m \<and>
         manifest_upstream m = Some golden_upstream \<and>
         manifest_lock b = Some golden_commit \<and>
         b ''namespace.yaml'' = basens_files ''namespace.yaml'')"
proof -
  have r: "resolve golden_collaborators golden_upstream = Some (golden_commit, basens_files)"
    by (simp add: golden_collaborators_def)
  have n: "find_revision empty_engine golden_target = None"
    by (simp add: find_revision_def empty_engine_def)
  have p: "''namespace.yaml'' \<noteq> manifest_path"
    by (simp add: manifest_path_def)
  from clone_read_back [OF r n golden_commit_hash, of "''porch''"] p r n golden_commit_hash
  show ?thesis by blast
qed

subsection \<open>The lifecycle of a published revision\<close>

lemma step_keeps_published:
  assumes st: "step env s x = Inr s'"
    and past: "t < now s"
    and inv: "\<forall>y \<in> set (revisions s). createdAt y = t \<longrightarrow>
                key y = k \<and> (lifecycle y = Published \<or> lifecycle y = DeletionProposed)"
  shows "t < now s' \<and> (\<forall>y \<in> set (revisions s'). createdAt y = t \<longrightarrow>
                key y = k \<and> (lifecycle y = Published \<or> lifecycle y = DeletionProposed))"
  using st
proof (cases rule: step_cases)
  case (Added rv)
  with past inv show ?thesis by auto
next
  case (Replaced k2 rv rv')
  have old: "rv \<in> set (revisions s)" "key rv = k2"
    using Replaced(1) by (auto dest: find_revision_Some)
  have new: "key rv' = k \<and> (lifecycle rv' = Published \<or> lifecycle rv' = DeletionProposed)"
    if "createdAt rv' = t"
  proof -
    from that Replaced(4) old inv
    have o: "key rv = k" "lifecycle rv = Published \<or> lifecycle rv = DeletionProposed"
      by auto
    with Replaced(6) have "lifecycle rv' = DeletionProposed \<and> lifecycle rv = Published"
      by (cases "lifecycle rv'") auto
    with Replaced(7) o old show ?thesis by auto
  qed
  from Replaced(2,3) past inv new show ?thesis by auto
next
  case (Removed k2 rv)
  with past inv show ?thesis by auto
qed

lemma steps_keep_published:
  assumes "t < now s"
    and "\<forall>y \<in> set (revisions s). createdAt y = t \<longrightarrow>
                key y = k \<and> (lifecycle y = Published \<or> lifecycle y = DeletionProposed)"
  shows "\<forall>y \<in> set (revisions (steps env s xs)). createdAt y = t \<longrightarrow>
                key y = k \<and> (lifecycle y = Published \<or> lifecycle y = DeletionProposed)"
  using assms
proof (induction xs arbitrary: s)
  case Nil
  then show ?case by simp
next
  case (Cons x xs)
  show ?case
  proof (cases "step env s x")
    case (Inl failure)
    with Cons show ?thesis by simp
  next
    case (Inr s')
    from step_keeps_published [OF Inr Cons.prems] Cons.IH [of s'] Inr
    show ?thesis by simp
  qed
qed

lemma find_map_replace:
  assumes "key rv' = k"
  shows "find (\<lambda>y. key y = k) (map (\<lambda>y. if key y = k then rv' else y) xs) =
         (case find (\<lambda>y. key y = k) xs of None \<Rightarrow> None | Some z \<Rightarrow> Some rv')"
  using assms by (induction xs) auto

lemma find_map_other:
  assumes "k2 \<noteq> k" "key rv' \<noteq> k"
  shows "find (\<lambda>y. key y = k) (map (\<lambda>y. if key y = k2 then rv' else y) xs) =
         find (\<lambda>y. key y = k) xs"
  using assms by (induction xs) auto

lemma find_filter_other:
  assumes "k2 \<noteq> k"
  shows "find (\<lambda>y. key y = k) (filter (\<lambda>y. key y \<noteq> k2) xs) = find (\<lambda>y. key y = k) xs"
  using assms by (induction xs) auto

lemma step_from_published:
  assumes st: "step env s x = Inr s'"
    and f: "find_revision s k = Some rv" and p: "lifecycle rv = Published"
  shows "\<exists>rv'. find_revision s' k = Some rv' \<and> createdAt rv' = createdAt rv \<and>
           (lifecycle rv' = Published \<or> lifecycle rv' = DeletionProposed)"
  using st
proof (cases rule: step_cases)
  case (Added new)
  with f have "key new \<noteq> k" by auto
  with Added f p show ?thesis by (simp add: find_revision_def)
next
  case (Replaced k2 old rv')
  show ?thesis
  proof (cases "k2 = k")
    case True
    with Replaced(1) f have o: "old = rv" by simp
    with Replaced(6) p have l: "lifecycle rv' = DeletionProposed"
      by (cases "lifecycle rv'") auto
    from Replaced(7) o p True have "key rv' = k" by simp
    from find_map_replace [OF this] Replaced(2) f True l Replaced(4) o
    show ?thesis by (simp add: find_revision_def)
  next
    case False
    have "key rv' \<noteq> k"
    proof
      assume "key rv' = k"
      with Replaced(7) False f show False by auto
    qed
    from find_map_other [OF False this] Replaced(2) f p
    show ?thesis by (simp add: find_revision_def)
  qed
next
  case (Removed k2 old)
  with f p have ne: "k2 \<noteq> k" by auto
  have "find_revision s' k = find_revision s k"
    by (simp only: find_revision_def Removed(3) find_filter_other [OF ne])
  with f p show ?thesis by simp
qed

text \<open>
  C4. Whatever sequence of operations the engine performs, a revision that is
  \<open>Published\<close> is never \<open>Draft\<close> afterwards: as long as it exists it keeps
  its key and is \<open>Published\<close> or \<open>DeletionProposed\<close>. A single operation
  leaves a published revision in place, \<open>Published\<close> or \<open>DeletionProposed\<close>.
\<close>

theorem published_never_draft:
  assumes "well_formed s" and "find_revision s k = Some rv" and "lifecycle rv = Published"
  shows "(\<forall>y \<in> set (revisions (steps env s xs)). createdAt y = createdAt rv \<longrightarrow>
            key y = k \<and> (lifecycle y = Published \<or> lifecycle y = DeletionProposed))
       \<and> (\<forall>x s'. step env s x = Inr s' \<longrightarrow>
            (\<exists>rv'. find_revision s' k = Some rv' \<and> createdAt rv' = createdAt rv \<and>
               (lifecycle rv' = Published \<or> lifecycle rv' = DeletionProposed)))"
proof
  have "\<forall>y \<in> set (revisions s). createdAt y = createdAt rv \<longrightarrow>
          key y = k \<and> (lifecycle y = Published \<or> lifecycle y = DeletionProposed)"
    using assms stamp_unique [OF assms(1,2)] by (auto dest: find_revision_Some)
  from steps_keep_published [OF stamp_past [OF assms(1,2)] this]
  show "\<forall>y \<in> set (revisions (steps env s xs)). createdAt y = createdAt rv \<longrightarrow>
            key y = k \<and> (lifecycle y = Published \<or> lifecycle y = DeletionProposed)" .
next
  show "\<forall>x s'. step env s x = Inr s' \<longrightarrow>
            (\<exists>rv'. find_revision s' k = Some rv' \<and> createdAt rv' = createdAt rv \<and>
               (lifecycle rv' = Published \<or> lifecycle rv' = DeletionProposed))"
    using step_from_published assms(2,3) by blast
qed

lemma published_steps:
  "revisions (steps golden_collaborators published_engine
          [Reject (''git'', ''basens-clone'', ''v1''),
           UpdateResources (''git'', ''basens-clone'', ''v1'') edited_bundle,
           ProposeDelete (''git'', ''basens-clone'', ''v1''),
           Reject (''git'', ''basens-clone'', ''v1'')]) =
     [published_revision\<lparr>lifecycle := DeletionProposed\<rparr>]"
  by (simp add: reject_def updateResources_def proposeDelete_def find_revision_def
      published_engine_def published_revision_def put_revision_def)

theorem published_never_draft_witness:
  "well_formed published_engine
   \<and> find_revision published_engine (''git'', ''basens-clone'', ''v1'') = Some published_revision
   \<and> lifecycle published_revision = Published
   \<and> published_revision\<lparr>lifecycle := DeletionProposed\<rparr>
        \<in> set (revisions (steps golden_collaborators published_engine
          [Reject (''git'', ''basens-clone'', ''v1''),
           UpdateResources (''git'', ''basens-clone'', ''v1'') edited_bundle,
           ProposeDelete (''git'', ''basens-clone'', ''v1''),
           Reject (''git'', ''basens-clone'', ''v1'')]))
   \<and> createdAt (published_revision\<lparr>lifecycle := DeletionProposed\<rparr>)
        = createdAt published_revision
   \<and> key (published_revision\<lparr>lifecycle := DeletionProposed\<rparr>)
        = (''git'', ''basens-clone'', ''v1'')
   \<and> (lifecycle (published_revision\<lparr>lifecycle := DeletionProposed\<rparr>) = Published
        \<or> lifecycle (published_revision\<lparr>lifecycle := DeletionProposed\<rparr>) = DeletionProposed)"
proof -
  have w: "well_formed published_engine"
    by (simp add: well_formed_def published_engine_def published_revision_def)
  have f: "find_revision published_engine (''git'', ''basens-clone'', ''v1'') = Some published_revision"
    by (simp add: find_revision_def published_engine_def published_revision_def)
  have l: "lifecycle published_revision = Published"
    by (simp add: published_revision_def)
  have i: "published_revision\<lparr>lifecycle := DeletionProposed\<rparr>
        \<in> set (revisions (steps golden_collaborators published_engine
          [Reject (''git'', ''basens-clone'', ''v1''),
           UpdateResources (''git'', ''basens-clone'', ''v1'') edited_bundle,
           ProposeDelete (''git'', ''basens-clone'', ''v1''),
           Reject (''git'', ''basens-clone'', ''v1'')]))"
    by (simp only: published_steps) simp
  have c: "createdAt (published_revision\<lparr>lifecycle := DeletionProposed\<rparr>)
        = createdAt published_revision"
    by simp
  from published_never_draft [OF w f l, THEN conjunct1, rule_format, OF i c] w f l i c
  show ?thesis by blast
qed

subsection \<open>The upstream lock\<close>







end
